theory Spec2Isabelle
  imports Main
begin

section \<open>Files of the operating system\<close>

text \<open>
  A Go \<^verbatim>\<open>*os.File\<close> is either \<^verbatim>\<open>nil\<close> or the identity of one open-file object.
  The objects live in a store: object \<open>i\<close> is entry \<open>i\<close> of \<open>files\<close>. Each object
  remembers the path it was opened on, whether \<^verbatim>\<open>Close\<close> has succeeded on it, and the
  bytes that were appended through it. The store also keeps the trace of the
  \<^verbatim>\<open>Write\<close> and \<^verbatim>\<open>Close\<close> method calls made on file values, and the three
  process-wide output targets (\<^verbatim>\<open>os.Stdout\<close>, \<^verbatim>\<open>os.Stderr\<close> and the output of the
  standard \<^verbatim>\<open>log\<close> package).
\<close>

type_synonym File = "nat option"

datatype os_error = ErrInvalid | ErrClosed | ErrOpen

record file_state =
  fname :: string
  fclosed :: bool
  fwritten :: string

datatype call = Call_Write File string | Call_Close File

record os =
  files :: "file_state list"
  calls :: "call list"
  Stdout :: File
  Stderr :: File
  log_output :: File

text \<open>
  \<^verbatim>\<open>(*os.File).Write\<close>: on a nil receiver it returns \<^verbatim>\<open>ErrInvalid\<close>, on a closed
  file \<^verbatim>\<open>ErrClosed\<close>; in both cases nothing is written. Otherwise the bytes are
  appended (every file of this program is opened with \<^verbatim>\<open>O_APPEND\<close>).
\<close>

definition File_Write :: "File \<Rightarrow> string \<Rightarrow> os \<Rightarrow> os_error option \<times> os" where
  "File_Write f b s =
     (let s' = s\<lparr>calls := calls s @ [Call_Write f b]\<rparr> in
      case f of
        None \<Rightarrow> (Some ErrInvalid, s')
      | Some i \<Rightarrow>
          if i < length (files s) \<and> \<not> fclosed (files s ! i)
          then (None, s'\<lparr>files := (files s)[i := (files s ! i)\<lparr>fwritten := fwritten (files s ! i) @ b\<rparr>]\<rparr>)
          else (Some ErrClosed, s'))"

text \<open>
  \<^verbatim>\<open>(*os.File).Close\<close>: \<^verbatim>\<open>ErrInvalid\<close> on nil, \<^verbatim>\<open>ErrClosed\<close> on a file that is
  closed already (with no further effect on it), otherwise the file becomes closed.
\<close>

definition File_Close :: "File \<Rightarrow> os \<Rightarrow> os_error option \<times> os" where
  "File_Close f s =
     (let s' = s\<lparr>calls := calls s @ [Call_Close f]\<rparr> in
      case f of
        None \<Rightarrow> (Some ErrInvalid, s')
      | Some i \<Rightarrow>
          if i < length (files s) \<and> \<not> fclosed (files s ! i)
          then (None, s'\<lparr>files := (files s)[i := (files s ! i)\<lparr>fclosed := True\<rparr>]\<rparr>)
          else (Some ErrClosed, s'))"

text \<open>
  What the program cannot decide itself is collected in an environment: the value of
  environment variables, whether a path can be opened, the clock and the random source.
\<close>

record env =
  Getenv :: "string \<Rightarrow> string"
  openable :: "string \<Rightarrow> bool"
  UnixNano :: int
  random :: "nat \<Rightarrow> nat"

text \<open>
  \<^verbatim>\<open>rand.Intn(n)\<close> returns a number of the half-open interval from 0 to \<open>n\<close>:
  \<open>rand_Intn e k n\<close> is the result of the \<open>k\<close>-th call, taken from the \<open>k\<close>-th number
  of the random source.
\<close>

definition rand_Intn :: "env \<Rightarrow> nat \<Rightarrow> nat \<Rightarrow> nat" where
  "rand_Intn e k n = random e k mod n"

text \<open>
  \<^verbatim>\<open>os.OpenFile(name, O_APPEND|O_WRONLY|O_CREATE, perm)\<close>: a fresh file object on
  success.
\<close>

definition OpenFile :: "env \<Rightarrow> string \<Rightarrow> os \<Rightarrow> (os_error + File) \<times> os" where
  "OpenFile e path s =
     (if openable e path
      then (Inr (Some (length (files s))),
            s\<lparr>files := files s @ [\<lparr>fname = path, fclosed = False, fwritten = []\<rparr>]\<rparr>)
      else (Inl ErrOpen, s))"

text \<open>Observations on the store, used to state properties.\<close>

definition is_open :: "File \<Rightarrow> os \<Rightarrow> bool" where
  "is_open f s = (case f of None \<Rightarrow> False | Some i \<Rightarrow> i < length (files s) \<and> \<not> fclosed (files s ! i))"

definition written :: "File \<Rightarrow> os \<Rightarrow> string" where
  "written f s = (case f of None \<Rightarrow> [] | Some i \<Rightarrow> if i < length (files s) then fwritten (files s ! i) else [])"

section \<open>The logger of \<^verbatim>\<open>src/main.go\<close>\<close>

definition LOGGER_TYPE_LOG :: string where
  "LOGGER_TYPE_LOG = ''log''"

definition LOGGER_TYPE_ERROR :: string where
  "LOGGER_TYPE_ERROR = ''error''"

record Log =
  Message :: string

definition Log_String :: "Log \<Rightarrow> string" where
  "Log_String l = Message l"

text \<open>
  A message is an \<^verbatim>\<open>interface{}\<close>. The type switch of the program tells three dynamic
  types apart: \<^verbatim>\<open>string\<close>, \<^verbatim>\<open>Log\<close> and everything else; the values of every other
  type are the type parameter \<open>'a\<close>.
\<close>

datatype 'a message = MString string | MLog Log | MOther 'a

text \<open>
  The struct \<^verbatim>\<open>Logger\<close>. The two channels \<^verbatim>\<open>NativeStreamLogs\<close> and
  \<^verbatim>\<open>NativeStreamErrors\<close> carry one value each, the final buffer of a drain task;
  that value is an argument of \<open>RevertNativeLogs\<close> below, and the channel fields are
  left out.
\<close>

record Logger =
  Enabled :: bool
  Logger_Id :: string
  IncludesNativeInfo :: bool
  StreamLogs :: File
  StreamErrors :: File
  WriterLogs :: File
  WriterErrors :: File
  NativeLogsCache :: File
  NativeErrorsCache :: File

definition native_advisory :: string where
  "native_advisory = ''Native logs detected. Use context.Log() or context.Error() for better experience.''"

text \<open>
  \<^verbatim>\<open>func (l Logger) Write(message interface{}, xtype string, xnative bool)\<close>
  (main.go, lines 175 to 206; the same text stands in part_001 at lines 666 to 697). The
  receiver is a value: \<open>l\<close> is a copy of the caller's
  struct, the assignment to \<^verbatim>\<open>l.IncludesNativeInfo\<close> reaches the copy only, and
  the function returns nothing but the changed store. \<open>marshal\<close> is
  \<^verbatim>\<open>json.Marshal\<close> (\<open>None\<close> when it returns an error) and \<open>sprintv\<close> is
  \<^verbatim>\<open>fmt.Sprintf("%v", _)\<close>.
\<close>

function Write :: "('a \<Rightarrow> string option) \<Rightarrow> ('a \<Rightarrow> string) \<Rightarrow> Logger \<Rightarrow> 'a message \<Rightarrow> string \<Rightarrow> bool \<Rightarrow> os \<Rightarrow> os" where
  "Write marshal sprintv l message xtype xnative s =
     (let ls = (if xnative \<and> \<not> IncludesNativeInfo l
                then (l\<lparr>IncludesNativeInfo := True\<rparr>,
                      Write marshal sprintv (l\<lparr>IncludesNativeInfo := True\<rparr>) (MString native_advisory) xtype xnative s)
                else (l, s));
          l1 = fst ls;
          s1 = snd ls;
          stream = (if xtype = LOGGER_TYPE_ERROR then StreamErrors l1 else StreamLogs l1);
          stringLog = (case message of
                         MString str \<Rightarrow> str
                       | MLog lg \<Rightarrow> Log_String lg
                       | MOther v \<Rightarrow> (case marshal v of None \<Rightarrow> sprintv v | Some jsonData \<Rightarrow> jsonData))
      in snd (File_Write stream stringLog s1))"
  by pat_completeness auto
termination
  by (relation "measure (\<lambda>(marshal, sprintv, l, message, xtype, xnative, s). if xnative \<and> \<not> IncludesNativeInfo l then 1 else 0)") auto

declare Write.simps [simp del]

text \<open>
  \<^verbatim>\<open>func (l Logger) End()\<close> (main.go, lines 208 to 217). The receiver is a value here
  as well: \<^verbatim>\<open>l.Enabled = false\<close> changes the copy, the caller's struct stays as it
  was, and the two \<^verbatim>\<open>Close\<close> calls (their errors dropped) act on the store.
\<close>

definition End :: "Logger \<Rightarrow> os \<Rightarrow> os" where
  "End l s =
     (if \<not> Enabled l then s
      else (let l1 = l\<lparr>Enabled := False\<rparr>;
                s1 = snd (File_Close (StreamLogs l1) s);
                s2 = snd (File_Close (StreamErrors l1) s1)
            in s2))"

text \<open>
  \<^verbatim>\<open>func (l Logger) RevertNativeLogs()\<close> (main.go, lines 257 to 274; the same text
  stands in part_001 at lines 748 to 765). \<open>customLogs\<close>
  and \<open>customErrors\<close> are the values received from the two channels: the final
  buffers of the two drain tasks.
\<close>

definition RevertNativeLogs :: "('a \<Rightarrow> string option) \<Rightarrow> ('a \<Rightarrow> string) \<Rightarrow> Logger \<Rightarrow> string \<Rightarrow> string \<Rightarrow> os \<Rightarrow> os" where
  "RevertNativeLogs marshal sprintv l customLogs customErrors s =
     (let s1 = snd (File_Close (WriterLogs l) s);
          s2 = snd (File_Close (WriterErrors l) s1);
          s3 = s2\<lparr>Stdout := NativeLogsCache l, Stderr := NativeErrorsCache l\<rparr>;
          s4 = s3\<lparr>log_output := Stderr s3\<rparr>;
          s5 = (if customLogs \<noteq> []
                then Write marshal sprintv l (MString customLogs) LOGGER_TYPE_LOG True s4
                else s4);
          s6 = (if customErrors \<noteq> []
                then Write marshal sprintv l (MString customLogs) LOGGER_TYPE_ERROR True s5
                else s5)
      in s6)"

text \<open>
  \<^verbatim>\<open>fmt.Sprintf("%d", n)\<close>: the decimal digits of an integer, with a minus sign for
  a negative one.
\<close>

definition digit_char :: "nat \<Rightarrow> char" where
  "digit_char d = (''0123456789abcdef'' ! d)"

function decimal :: "nat \<Rightarrow> string" where
  "decimal n = (if n < 10 then [digit_char n] else decimal (n div 10) @ [digit_char (n mod 10)])"
  by pat_completeness auto
termination
  by (relation "measure id") auto

declare decimal.simps [simp del]

definition Sprintf_d :: "int \<Rightarrow> string" where
  "Sprintf_d i = (if i < 0 then CHR ''-'' # decimal (nat (- i)) else decimal (nat i))"

text \<open>
  \<^verbatim>\<open>func (l Logger) _GenerateId() string\<close> (main.go, lines 276 to 283): the clock in
  nanoseconds and one random number below 1000, both printed with \<^verbatim>\<open>%d\<close>.
\<close>

definition GenerateId :: "env \<Rightarrow> string" where
  "GenerateId e =
     (let timestamp = UnixNano e;
          randomNumber = rand_Intn e 0 1000
      in Sprintf_d timestamp @ Sprintf_d (int randomNumber))"

text \<open>
  \<^verbatim>\<open>func NewLogger(status string, id string) (Logger, error)\<close> (main.go, lines 135
  to 173). The result is \<open>Inl\<close> the error message or \<open>Inr\<close> the logger.
\<close>

definition zero_Logger :: Logger where
  "zero_Logger = \<lparr>Enabled = False, Logger_Id = [], IncludesNativeInfo = False,
     StreamLogs = None, StreamErrors = None, WriterLogs = None, WriterErrors = None,
     NativeLogsCache = None, NativeErrorsCache = None\<rparr>"

definition NewLogger :: "env \<Rightarrow> string \<Rightarrow> string \<Rightarrow> os \<Rightarrow> (string + Logger) \<times> os" where
  "NewLogger e status ident s =
     (let logger0 = zero_Logger\<lparr>IncludesNativeInfo := False\<rparr>;
          logger1 = (if status = [] \<or> status = ''enabled''
                     then logger0\<lparr>Enabled := True\<rparr>
                     else logger0\<lparr>Enabled := False\<rparr>)
      in if Enabled logger1
         then (let serverEnv = Getenv e ''OPEN_RUNTIMES_ENV'';
                   logger2 = (if serverEnv = ''development''
                              then logger1\<lparr>Logger_Id := ''dev''\<rparr>
                              else if ident = []
                                   then logger1\<lparr>Logger_Id := GenerateId e\<rparr>
                                   else logger1\<lparr>Logger_Id := ident\<rparr>)
               in case OpenFile e (''/mnt/logs/'' @ Logger_Id logger2 @ ''_logs.log'') s of
                    (Inl err, s1) \<Rightarrow> (Inl ''could not prepare log file'', s1)
                  | (Inr fileLogs, s1) \<Rightarrow>
                      (let logger3 = logger2\<lparr>StreamLogs := fileLogs\<rparr>
                       in case OpenFile e (''/mnt/logs/'' @ Logger_Id logger3 @ ''_errors.log'') s1 of
                            (Inl err, s2) \<Rightarrow> (Inl ''could not prepare log file'', s2)
                          | (Inr fileErrors, s2) \<Rightarrow> (Inr (logger3\<lparr>StreamErrors := fileErrors\<rparr>), s2)))
         else (Inr logger1, s))"

text \<open>
  The struct \<^verbatim>\<open>Context\<close> and its two logging methods (main.go, lines 18 to 38).
  \<^verbatim>\<open>Log\<close> and \<^verbatim>\<open>Error\<close> read the field \<^verbatim>\<open>_Logger\<close> only; the request and
  response fields are left out.
\<close>

record Context =
  ctx_Logger :: Logger

definition Context_Log :: "('a \<Rightarrow> string option) \<Rightarrow> ('a \<Rightarrow> string) \<Rightarrow> Context \<Rightarrow> 'a message \<Rightarrow> os \<Rightarrow> os" where
  "Context_Log marshal sprintv c message s =
     Write marshal sprintv (ctx_Logger c) message LOGGER_TYPE_LOG False s"

definition Context_Error :: "('a \<Rightarrow> string option) \<Rightarrow> ('a \<Rightarrow> string) \<Rightarrow> Context \<Rightarrow> 'a message \<Rightarrow> os \<Rightarrow> os" where
  "Context_Error marshal sprintv c message s =
     Write marshal sprintv (ctx_Logger c) message LOGGER_TYPE_LOG False s"

section \<open>The response builder of \<^verbatim>\<open>src/main.go\<close>\<close>

text \<open>
  A Go map is a reference: \<^verbatim>\<open>map[string]string\<close> is nil or the identity of a map
  object, and two variables may name the same object. The map objects live in a heap,
  object \<open>r\<close> being entry \<open>r\<close> of the list; \<^verbatim>\<open>map[string]string{}\<close> allocates a new
  entry.
\<close>

type_synonym headers = "nat option"

type_synonym heap = "(string \<rightharpoonup> string) list"

record ResponseOutput =
  Body :: string
  StatusCode :: int
  Headers :: headers

definition new_map :: "heap \<Rightarrow> nat \<times> heap" where
  "new_map h = (length h, h @ [Map.empty])"

text \<open>
  \<^verbatim>\<open>func (r Response) Send(body string, statusCode int, headers map[string]string)\<close>
  (main.go, lines 62 to 76; the same text stands in part_000 at lines 85 to 99).
\<close>

definition Send :: "string \<Rightarrow> int \<Rightarrow> headers \<Rightarrow> heap \<Rightarrow> ResponseOutput \<times> heap" where
  "Send body statusCode hdrs h =
     (let rh = (case hdrs of None \<Rightarrow> new_map h | Some r \<Rightarrow> (r, h));
          statusCode1 = (if statusCode = 0 then 200 else statusCode)
      in (\<lparr>Body = body, StatusCode = statusCode1, Headers = Some (fst rh)\<rparr>, snd rh))"

text \<open>
  \<^verbatim>\<open>func (r Response) Json(bodyStruct interface{}, statusCode int, headers map[string]string)\<close>
  (main.go, lines 78 to 97; the same text stands in part_000 at lines 101 to 120). After
  the nil test \<open>headers\<close> names a map object, and the
  assignment \<^verbatim>\<open>headers["content-type"] = "application/json"\<close> updates that object
  in the heap.
\<close>

definition Json :: "('a \<Rightarrow> string option) \<Rightarrow> 'a \<Rightarrow> int \<Rightarrow> headers \<Rightarrow> heap \<Rightarrow> ResponseOutput \<times> heap" where
  "Json marshal bodyStruct statusCode hdrs h =
     (let rh = (case hdrs of None \<Rightarrow> new_map h | Some r \<Rightarrow> (r, h));
          r = fst rh;
          h1 = snd rh;
          statusCode1 = (if statusCode = 0 then 200 else statusCode);
          h2 = h1[r := (h1 ! r)(''content-type'' \<mapsto> ''application/json'')]
      in case marshal bodyStruct of
           None \<Rightarrow> Send ''Error encoding JSON.'' 500 None h2
         | Some jsonData \<Rightarrow> Send jsonData statusCode1 (Some r) h2)"

text \<open>
  The response builder of the second revision of part_001 (package \<^verbatim>\<open>types\<close>, lines
  528 to 587): \<^verbatim>\<open>Json\<close> goes through \<^verbatim>\<open>Text\<close> and \<^verbatim>\<open>Binary\<close>, each of
  which repeats the two defaults.
\<close>

definition Binary_part001 :: "string \<Rightarrow> int \<Rightarrow> headers \<Rightarrow> heap \<Rightarrow> ResponseOutput \<times> heap" where
  "Binary_part001 bytes statusCode hdrs h =
     (let rh = (case hdrs of None \<Rightarrow> new_map h | Some r \<Rightarrow> (r, h));
          statusCode1 = (if statusCode = 0 then 200 else statusCode)
      in (\<lparr>Body = bytes, StatusCode = statusCode1, Headers = Some (fst rh)\<rparr>, snd rh))"

definition Text_part001 :: "string \<Rightarrow> int \<Rightarrow> headers \<Rightarrow> heap \<Rightarrow> ResponseOutput \<times> heap" where
  "Text_part001 body statusCode hdrs h =
     (let rh = (case hdrs of None \<Rightarrow> new_map h | Some r \<Rightarrow> (r, h));
          statusCode1 = (if statusCode = 0 then 200 else statusCode)
      in Binary_part001 body statusCode1 (Some (fst rh)) (snd rh))"

definition Json_part001 :: "('a \<Rightarrow> string option) \<Rightarrow> 'a \<Rightarrow> int \<Rightarrow> headers \<Rightarrow> heap \<Rightarrow> ResponseOutput \<times> heap" where
  "Json_part001 marshal bodyStruct statusCode hdrs h =
     (let rh = (case hdrs of None \<Rightarrow> new_map h | Some r \<Rightarrow> (r, h));
          r = fst rh;
          h1 = snd rh;
          statusCode1 = (if statusCode = 0 then 200 else statusCode);
          h2 = h1[r := (h1 ! r)(''content-type'' \<mapsto> ''application/json'')]
      in case marshal bodyStruct of
           None \<Rightarrow> Text_part001 ''Error encoding JSON.'' 500 None h2
         | Some jsonData \<Rightarrow> Text_part001 jsonData statusCode1 (Some r) h2)"

section \<open>The context of \<^verbatim>\<open>src/unnamed/part_000\<close>\<close>

text \<open>
  In this revision there is no logger: the context keeps the lines itself, in its two
  slices \<^verbatim>\<open>Logs\<close> and \<^verbatim>\<open>Errors\<close> (part_000, lines 8 to 13; the request and
  response fields are left out).
  \<^verbatim>\<open>func (c *Context) Log(message interface{})\<close> (lines 23 to 41) resolves the
  message and appends the line to \<^verbatim>\<open>c.Logs\<close>; the changed context is the result.
\<close>

record Context_part000 =
  Logs :: "string list"
  Errors :: "string list"

definition Context_Log_part000 :: "('a \<Rightarrow> string option) \<Rightarrow> ('a \<Rightarrow> string) \<Rightarrow> Context_part000 \<Rightarrow> 'a message \<Rightarrow> Context_part000" where
  "Context_Log_part000 marshal sprintv c message =
     (case message of
        MString str \<Rightarrow> c\<lparr>Logs := Logs c @ [str]\<rparr>
      | MLog lg \<Rightarrow> c\<lparr>Logs := Logs c @ [Log_String lg]\<rparr>
      | MOther v \<Rightarrow>
          (case marshal v of
             None \<Rightarrow> c\<lparr>Logs := Logs c @ [sprintv v]\<rparr>
           | Some jsonData \<Rightarrow> c\<lparr>Logs := Logs c @ [jsonData]\<rparr>))"

section \<open>The other revisions of the logger\<close>

text \<open>
  \<^verbatim>\<open>src/unnamed/part_001\<close> holds two more revisions of the same file. In the first
  (lines 1 to 416, package \<^verbatim>\<open>openruntimes\<close>) \<^verbatim>\<open>Write\<close> and \<^verbatim>\<open>End\<close> have pointer
  receivers: they change the caller's struct, which the model returns with the store.
  In the second (lines 417 to 780, package \<^verbatim>\<open>types\<close>) \<^verbatim>\<open>Write\<close> is that of main.go,
  \<^verbatim>\<open>End\<close> has a pointer receiver and \<^verbatim>\<open>Context.Error\<close> passes
  \<^verbatim>\<open>LOGGER_TYPE_ERROR\<close>.
\<close>

text \<open>
  \<^verbatim>\<open>func (l *Logger) Write(message interface{}, xtype string, xnative bool)\<close> of package
  \<^verbatim>\<open>openruntimes\<close> (part_001, lines 302 to 333): the text of main.go behind a pointer
  receiver, so that the latch is set in the caller's struct.
\<close>

function Write_openruntimes :: "('a \<Rightarrow> string option) \<Rightarrow> ('a \<Rightarrow> string) \<Rightarrow> Logger \<Rightarrow> 'a message \<Rightarrow> string \<Rightarrow> bool \<Rightarrow> os \<Rightarrow> Logger \<times> os" where
  "Write_openruntimes marshal sprintv l message xtype xnative s =
     (let ls = (if xnative \<and> \<not> IncludesNativeInfo l
                then Write_openruntimes marshal sprintv (l\<lparr>IncludesNativeInfo := True\<rparr>) (MString native_advisory) xtype xnative s
                else (l, s));
          l1 = fst ls;
          s1 = snd ls;
          stream = (if xtype = LOGGER_TYPE_ERROR then StreamErrors l1 else StreamLogs l1);
          stringLog = (case message of
                         MString str \<Rightarrow> str
                       | MLog lg \<Rightarrow> Log_String lg
                       | MOther v \<Rightarrow> (case marshal v of None \<Rightarrow> sprintv v | Some jsonData \<Rightarrow> jsonData))
      in (l1, snd (File_Write stream stringLog s1)))"
  by pat_completeness auto
termination
  by (relation "measure (\<lambda>(marshal, sprintv, l, message, xtype, xnative, s). if xnative \<and> \<not> IncludesNativeInfo l then 1 else 0)") auto

declare Write_openruntimes.simps [simp del]

text \<open>
  \<^verbatim>\<open>func (l *Logger) End()\<close> (part_001, lines 335 to 344; the same text stands at lines
  699 to 708): the flag is cleared in the caller's struct.
\<close>

definition End_openruntimes :: "Logger \<Rightarrow> os \<Rightarrow> Logger \<times> os" where
  "End_openruntimes l s =
     (if \<not> Enabled l then (l, s)
      else (let l1 = l\<lparr>Enabled := False\<rparr>;
                s1 = snd (File_Close (StreamLogs l1) s);
                s2 = snd (File_Close (StreamErrors l1) s1)
            in (l1, s2)))"

text \<open>
  \<^verbatim>\<open>func (l *Logger) RevertNativeLogs()\<close> of package \<^verbatim>\<open>openruntimes\<close> (part_001,
  lines 384 to 401): the two write calls go through the pointer, so the second sees the
  struct as the first left it.
\<close>

definition RevertNativeLogs_openruntimes :: "('a \<Rightarrow> string option) \<Rightarrow> ('a \<Rightarrow> string) \<Rightarrow> Logger \<Rightarrow> string \<Rightarrow> string \<Rightarrow> os \<Rightarrow> Logger \<times> os" where
  "RevertNativeLogs_openruntimes marshal sprintv l customLogs customErrors s =
     (let s1 = snd (File_Close (WriterLogs l) s);
          s2 = snd (File_Close (WriterErrors l) s1);
          s3 = s2\<lparr>Stdout := NativeLogsCache l, Stderr := NativeErrorsCache l\<rparr>;
          s4 = s3\<lparr>log_output := Stderr s3\<rparr>;
          ls5 = (if customLogs \<noteq> []
                 then Write_openruntimes marshal sprintv l (MString customLogs) LOGGER_TYPE_LOG True s4
                 else (l, s4));
          ls6 = (if customErrors \<noteq> []
                 then Write_openruntimes marshal sprintv (fst ls5) (MString customLogs) LOGGER_TYPE_ERROR True (snd ls5)
                 else ls5)
      in ls6)"

text \<open>
  \<^verbatim>\<open>func (c *Context) Log(message interface{})\<close> of package \<^verbatim>\<open>openruntimes\<close>
  (part_001, lines 41 to 48). The facade renders the message itself, a string as it is
  and any other value with \<^verbatim>\<open>fmt.Sprintf("%#v", _)\<close> (the parameter \<open>sprintgv\<close>),
  puts a newline behind it and hands the resulting string to \<^verbatim>\<open>Write\<close>. The logger
  is a field of the context and \<^verbatim>\<open>Write\<close> has a pointer receiver: the field is
  updated in place.
\<close>

definition Context_Log_openruntimes :: "('a \<Rightarrow> string option) \<Rightarrow> ('a \<Rightarrow> string) \<Rightarrow> ('a message \<Rightarrow> string) \<Rightarrow> Context \<Rightarrow> 'a message \<Rightarrow> os \<Rightarrow> Context \<times> os" where
  "Context_Log_openruntimes marshal sprintv sprintgv c message s =
     (let line = (case message of
                    MString v \<Rightarrow> v @ [CHR 0x0A]
                  | MLog v \<Rightarrow> sprintgv message @ [CHR 0x0A]
                  | MOther v \<Rightarrow> sprintgv message @ [CHR 0x0A]);
          ls = Write_openruntimes marshal sprintv (ctx_Logger c) (MString line) LOGGER_TYPE_LOG False s
      in (c\<lparr>ctx_Logger := fst ls\<rparr>, snd ls))"

text \<open>
  The two logging methods of the context in the second revision of part_001 (package
  \<^verbatim>\<open>types\<close>, lines 450 to 456), on the value-receiver \<^verbatim>\<open>Write\<close>.
\<close>

definition Context_Log_part001 :: "('a \<Rightarrow> string option) \<Rightarrow> ('a \<Rightarrow> string) \<Rightarrow> Context \<Rightarrow> 'a message \<Rightarrow> os \<Rightarrow> os" where
  "Context_Log_part001 marshal sprintv c message s =
     Write marshal sprintv (ctx_Logger c) message LOGGER_TYPE_LOG False s"

definition Context_Error_part001 :: "('a \<Rightarrow> string option) \<Rightarrow> ('a \<Rightarrow> string) \<Rightarrow> Context \<Rightarrow> 'a message \<Rightarrow> os \<Rightarrow> os" where
  "Context_Error_part001 marshal sprintv c message s =
     Write marshal sprintv (ctx_Logger c) message LOGGER_TYPE_ERROR False s"

text \<open>
  Both revisions of part_001 build the identifier in the same way (lines 261 to 300 and
  403 to 416, again at 625 to 664 and 767 to 780): the identifier supplied by the caller
  comes first, and \<^verbatim>\<open>generateId(7)\<close> renders the clock in microseconds with
  \<^verbatim>\<open>strconv.FormatInt(_, 16)\<close> and appends seven random hexadecimal digits.
  \<open>go_quot\<close> is Go's integer division by a positive number, which truncates toward
  zero.
\<close>

definition go_quot :: "int \<Rightarrow> int \<Rightarrow> int" where
  "go_quot a b = (if a < 0 then - ((- a) div b) else a div b)"

function hexadecimal :: "nat \<Rightarrow> string" where
  "hexadecimal n = (if n < 16 then [digit_char n] else hexadecimal (n div 16) @ [digit_char (n mod 16)])"
  by pat_completeness auto
termination
  by (relation "measure id") auto

declare hexadecimal.simps [simp del]

definition FormatInt16 :: "int \<Rightarrow> string" where
  "FormatInt16 i = (if i < 0 then CHR ''-'' # hexadecimal (nat (- i)) else hexadecimal (nat i))"

definition choices :: "string list" where
  "choices = [''0'', ''1'', ''2'', ''3'', ''4'', ''5'', ''6'', ''7'', ''8'', ''9'',
              ''a'', ''b'', ''c'', ''d'', ''e'', ''f'']"

function generateId_loop :: "env \<Rightarrow> int \<Rightarrow> int \<Rightarrow> string \<Rightarrow> string" where
  "generateId_loop e padding i hexString =
     (if i < padding
      then generateId_loop e padding (i + 1) (hexString @ choices ! rand_Intn e (nat i) (length choices))
      else hexString)"
  by pat_completeness auto
termination
  by (relation "measure (\<lambda>(e, padding, i, hexString). nat (padding - i))") auto

declare generateId_loop.simps [simp del]

definition generateId :: "env \<Rightarrow> int \<Rightarrow> string" where
  "generateId e padding =
     (let timestamp = go_quot (UnixNano e) 1000;
          hexString = FormatInt16 timestamp
      in if padding > 0 then generateId_loop e padding 0 hexString else hexString)"

definition NewLogger_part001 :: "env \<Rightarrow> string \<Rightarrow> string \<Rightarrow> os \<Rightarrow> (string + Logger) \<times> os" where
  "NewLogger_part001 e status ident s =
     (let logger0 = zero_Logger\<lparr>IncludesNativeInfo := False\<rparr>;
          logger1 = (if status = [] \<or> status = ''enabled''
                     then logger0\<lparr>Enabled := True\<rparr>
                     else logger0\<lparr>Enabled := False, Logger_Id := []\<rparr>)
      in if Enabled logger1
         then (let serverEnv = Getenv e ''OPEN_RUNTIMES_ENV'';
                   logger2 = (if ident = []
                              then (if serverEnv = ''development''
                                    then logger1\<lparr>Logger_Id := ''dev''\<rparr>
                                    else logger1\<lparr>Logger_Id := generateId e 7\<rparr>)
                              else logger1\<lparr>Logger_Id := ident\<rparr>)
               in case OpenFile e (''/mnt/logs/'' @ Logger_Id logger2 @ ''_logs.log'') s of
                    (Inl err, s1) \<Rightarrow> (Inl ''could not prepare log file'', s1)
                  | (Inr fileLogs, s1) \<Rightarrow>
                      (let logger3 = logger2\<lparr>StreamLogs := fileLogs\<rparr>
                       in case OpenFile e (''/mnt/logs/'' @ Logger_Id logger3 @ ''_errors.log'') s1 of
                            (Inl err, s2) \<Rightarrow> (Inl ''could not prepare log file'', s2)
                          | (Inr fileErrors, s2) \<Rightarrow> (Inr (logger3\<lparr>StreamErrors := fileErrors\<rparr>), s2)))
         else (Inr logger1, s))"

section \<open>The response builder of package \<^verbatim>\<open>openruntimes\<close>\<close>

text \<open>
  \<^verbatim>\<open>src/unnamed/part_001\<close>, lines 128 to 218. An option is a closure over the value
  it sets. \<^verbatim>\<open>Json\<close> assigns into the map the options name, which panics when that
  map is nil: the result is \<open>None\<close> then.
\<close>

record Response =
  Response_Body :: string
  Response_StatusCode :: int
  Response_Headers :: headers
  enabledSetters :: "string \<rightharpoonup> bool"

datatype ResponseOption = WithHeaders headers | WithStatusCode int

definition Response_New :: Response where
  "Response_New = \<lparr>Response_Body = [], Response_StatusCode = 0, Response_Headers = None,
     enabledSetters = [''Body'' \<mapsto> False, ''StatusCode'' \<mapsto> False, ''Headers'' \<mapsto> False]\<rparr>"

definition apply_option :: "Response \<Rightarrow> ResponseOption \<Rightarrow> Response" where
  "apply_option opts opt =
     (case opt of
        WithHeaders hdrs \<Rightarrow>
          opts\<lparr>Response_Headers := hdrs, enabledSetters := (enabledSetters opts)(''Headers'' \<mapsto> True)\<rparr>
      | WithStatusCode statusCode \<Rightarrow>
          opts\<lparr>Response_StatusCode := statusCode, enabledSetters := (enabledSetters opts)(''StatusCode'' \<mapsto> True)\<rparr>)"

definition enabled_setter :: "Response \<Rightarrow> string \<Rightarrow> bool" where
  "enabled_setter opts k = (case enabledSetters opts k of None \<Rightarrow> False | Some b \<Rightarrow> b)"

definition ContextResponse_Binary :: "string \<Rightarrow> ResponseOption list \<Rightarrow> heap \<Rightarrow> Response \<times> heap" where
  "ContextResponse_Binary bytes optionalSetters h =
     (let opts = foldl apply_option Response_New optionalSetters;
          rh = new_map h;
          hdrs = (if enabled_setter opts ''Headers'' then Response_Headers opts else Some (fst rh));
          statusCode = (if enabled_setter opts ''StatusCode'' then Response_StatusCode opts else 200)
      in (\<lparr>Response_Body = bytes, Response_StatusCode = statusCode, Response_Headers = hdrs,
           enabledSetters = Map.empty\<rparr>, snd rh))"

definition ContextResponse_Text :: "string \<Rightarrow> ResponseOption list \<Rightarrow> heap \<Rightarrow> Response \<times> heap" where
  "ContextResponse_Text body optionalSetters h = ContextResponse_Binary body optionalSetters h"

definition ContextResponse_Json :: "('a \<Rightarrow> string option) \<Rightarrow> 'a \<Rightarrow> ResponseOption list \<Rightarrow> heap \<Rightarrow> (Response \<times> heap) option" where
  "ContextResponse_Json marshal bodyStruct optionalSetters h =
     (let opts = foldl apply_option Response_New optionalSetters;
          rh = new_map h;
          hdrs = (if enabled_setter opts ''Headers'' then Response_Headers opts else Some (fst rh));
          h1 = snd rh
      in case hdrs of
           None \<Rightarrow> None
         | Some r \<Rightarrow>
             (let h2 = h1[r := (h1 ! r)(''content-type'' \<mapsto> ''application/json'')];
                  optionalSetters1 = optionalSetters @ [WithHeaders (Some r)]
              in case marshal bodyStruct of
                   None \<Rightarrow> Some (ContextResponse_Text ''Error encoding JSON.'' (optionalSetters1 @ [WithStatusCode 500]) h2)
                 | Some jsonData \<Rightarrow> Some (ContextResponse_Text jsonData optionalSetters1 h2)))"

section \<open>Clients and the words of the specification\<close>



text \<open>
  The resolution rule in the words of the specification: a string is stored as it is, the
  tagged wrapper as its display string, anything else as its JSON text, and as its generic
  textual rendering when the serialization fails.
\<close>

definition resolved_line :: "('a \<Rightarrow> string option) \<Rightarrow> ('a \<Rightarrow> string) \<Rightarrow> 'a message \<Rightarrow> string" where
  "resolved_line marshal sprintv message =
     (case message of
        MString str \<Rightarrow> str
      | MLog lg \<Rightarrow> Message lg
      | MOther v \<Rightarrow> (if marshal v = None then sprintv v else the (marshal v)))"

text \<open>Concrete inputs: two open destinations, an enabled sink on them and its context.\<close>

definition store2 :: os where
  "store2 = \<lparr>files = [\<lparr>fname = ''/mnt/logs/a_logs.log'', fclosed = False, fwritten = []\<rparr>,
                       \<lparr>fname = ''/mnt/logs/a_errors.log'', fclosed = False, fwritten = []\<rparr>],
             calls = [], Stdout = None, Stderr = None, log_output = None\<rparr>"

definition sink2 :: Logger where
  "sink2 = zero_Logger\<lparr>Enabled := True, Logger_Id := ''a'', StreamLogs := Some 0, StreamErrors := Some 1\<rparr>"

definition context2 :: Context where
  "context2 = \<lparr>ctx_Logger = sink2\<rparr>"

text \<open>
  A stand-in for the serializer on natural numbers: it fails on \<open>0\<close> and renders every
  other number as \<^verbatim>\<open>1\<close>; the textual rendering is \<^verbatim>\<open>v\<close>.
\<close>

definition marshal2 :: "nat \<Rightarrow> string option" where
  "marshal2 n = (if n = 0 then None else Some ''1'')"

definition sprintv2 :: "nat \<Rightarrow> string" where
  "sprintv2 n = ''v''"

text \<open>
  The same sink during a capture session: the two pipe write-ends are open, and the drain
  tasks have collected \<^verbatim>\<open>out\<close> and \<^verbatim>\<open>err\<close>.
\<close>

definition store4 :: os where
  "store4 = \<lparr>files = [\<lparr>fname = ''/mnt/logs/a_logs.log'', fclosed = False, fwritten = []\<rparr>,
                       \<lparr>fname = ''/mnt/logs/a_errors.log'', fclosed = False, fwritten = []\<rparr>,
                       \<lparr>fname = ''|1'', fclosed = False, fwritten = ''out''\<rparr>,
                       \<lparr>fname = ''|2'', fclosed = False, fwritten = ''err''\<rparr>],
             calls = [], Stdout = Some 2, Stderr = Some 3, log_output = Some 2\<rparr>"

definition sink4 :: Logger where
  "sink4 = sink2\<lparr>WriterLogs := Some 2, WriterErrors := Some 3\<rparr>"

text \<open>
  Two environments, one with \<^verbatim>\<open>OPEN_RUNTIMES_ENV=development\<close> and one without the
  variable; in both every path can be opened, the clock reads 255000 nanoseconds and
  the random source yields 10, 11, 12 and so on. The store \<open>store0\<close> has no file yet.
\<close>

definition env_development :: env where
  "env_development = \<lparr>Getenv = (\<lambda>k. if k = ''OPEN_RUNTIMES_ENV'' then ''development'' else []),
       openable = (\<lambda>p. True), UnixNano = 255000, random = (\<lambda>k. 10 + k)\<rparr>"

definition env_production :: env where
  "env_production = \<lparr>Getenv = (\<lambda>k. []), openable = (\<lambda>p. True), UnixNano = 255000, random = (\<lambda>k. 10 + k)\<rparr>"

definition store0 :: os where
  "store0 = \<lparr>files = [], calls = [], Stdout = None, Stderr = None, log_output = None\<rparr>"


definition heap1 :: heap where
  "heap1 = [[''x-a'' \<mapsto> ''b'']]"

definition heap2 :: heap where
  "heap2 = [[''x-a'' \<mapsto> ''b''], [''x-c'' \<mapsto> ''d'']]"

section \<open>Properties\<close>

subsection \<open>How one write call changes the store\<close>

lemmas inputs = store2_def sink2_def context2_def marshal2_def sprintv2_def zero_Logger_def
  LOGGER_TYPE_LOG_def LOGGER_TYPE_ERROR_def

lemma Write_latched:
  "\<not> xnative \<or> IncludesNativeInfo l \<Longrightarrow>
   Write marshal sprintv l message xtype xnative s =
     snd (File_Write (if xtype = LOGGER_TYPE_ERROR then StreamErrors l else StreamLogs l)
            (resolved_line marshal sprintv message) s)"
  by (subst Write.simps) (auto simp: resolved_line_def Log_String_def split: message.splits option.splits)

lemma Write_first_native:
  "xnative \<Longrightarrow> \<not> IncludesNativeInfo l \<Longrightarrow>
   Write marshal sprintv l message xtype xnative s =
     snd (File_Write (if xtype = LOGGER_TYPE_ERROR then StreamErrors l else StreamLogs l)
            (resolved_line marshal sprintv message)
            (snd (File_Write (if xtype = LOGGER_TYPE_ERROR then StreamErrors l else StreamLogs l)
               native_advisory s)))"
  by (subst Write.simps, subst Write.simps)
     (auto simp: resolved_line_def Log_String_def split: message.splits option.splits)

lemma Write_openruntimes_latched:
  "\<not> xnative \<or> IncludesNativeInfo l \<Longrightarrow>
   Write_openruntimes marshal sprintv l message xtype xnative s =
     (l, snd (File_Write (if xtype = LOGGER_TYPE_ERROR then StreamErrors l else StreamLogs l)
            (resolved_line marshal sprintv message) s))"
  by (subst Write_openruntimes.simps)
     (auto simp: resolved_line_def Log_String_def split: message.splits option.splits)

lemma Write_openruntimes_first_native:
  "xnative \<Longrightarrow> \<not> IncludesNativeInfo l \<Longrightarrow>
   Write_openruntimes marshal sprintv l message xtype xnative s =
     (l\<lparr>IncludesNativeInfo := True\<rparr>,
      snd (File_Write (if xtype = LOGGER_TYPE_ERROR then StreamErrors l else StreamLogs l)
            (resolved_line marshal sprintv message)
            (snd (File_Write (if xtype = LOGGER_TYPE_ERROR then StreamErrors l else StreamLogs l)
               native_advisory s))))"
  by (subst Write_openruntimes.simps, subst Write_openruntimes.simps)
     (auto simp: resolved_line_def Log_String_def Let_def split: message.splits option.splits)

lemma written_File_Write:
  "written g (snd (File_Write f b s)) = (if g = f \<and> is_open f s then written g s @ b else written g s)"
  by (auto simp: written_def is_open_def File_Write_def Let_def split: option.splits)

lemma is_open_File_Write: "is_open g (snd (File_Write f b s)) = is_open g s"
  by (auto simp: is_open_def File_Write_def Let_def nth_list_update split: option.splits)

lemma written_Write:
  "written g (Write marshal sprintv l message xtype xnative s) =
     (if g = (if xtype = LOGGER_TYPE_ERROR then StreamErrors l else StreamLogs l) \<and> is_open g s
      then written g s @ (if xnative \<and> \<not> IncludesNativeInfo l then native_advisory else [])
             @ resolved_line marshal sprintv message
      else written g s)"
proof (cases "xnative \<and> \<not> IncludesNativeInfo l")
  case True
  then show ?thesis
    by (auto simp: Write_first_native written_File_Write is_open_File_Write)
next
  case False
  then have "\<not> xnative \<or> IncludesNativeInfo l" by simp
  then show ?thesis using False
    by (auto simp: Write_latched written_File_Write is_open_File_Write)
qed

lemma written_Write_openruntimes:
  "written g (snd (Write_openruntimes marshal sprintv l message xtype xnative s)) =
     (if g = (if xtype = LOGGER_TYPE_ERROR then StreamErrors l else StreamLogs l) \<and> is_open g s
      then written g s @ (if xnative \<and> \<not> IncludesNativeInfo l then native_advisory else [])
             @ resolved_line marshal sprintv message
      else written g s)"
proof (cases "xnative \<and> \<not> IncludesNativeInfo l")
  case True
  then show ?thesis
    by (auto simp: Write_openruntimes_first_native written_File_Write is_open_File_Write)
next
  case False
  then have "\<not> xnative \<or> IncludesNativeInfo l" by simp
  then show ?thesis using False
    by (auto simp: Write_openruntimes_latched written_File_Write is_open_File_Write)
qed

lemma fst_Write_openruntimes:
  "fst (Write_openruntimes marshal sprintv l message xtype xnative s) =
     (if xnative \<and> \<not> IncludesNativeInfo l then l\<lparr>IncludesNativeInfo := True\<rparr> else l)"
  by (cases "xnative \<and> \<not> IncludesNativeInfo l")
     (auto simp: Write_openruntimes_first_native Write_openruntimes_latched)

lemma is_open_Write: "is_open g (Write marshal sprintv l message xtype xnative s) = is_open g s"
proof (cases "xnative \<and> \<not> IncludesNativeInfo l")
  case True
  then show ?thesis by (simp add: Write_first_native is_open_File_Write)
next
  case False
  then have "\<not> xnative \<or> IncludesNativeInfo l" by simp
  then show ?thesis by (simp add: Write_latched is_open_File_Write)
qed

lemma is_open_Write_openruntimes:
  "is_open g (snd (Write_openruntimes marshal sprintv l message xtype xnative s)) = is_open g s"
proof (cases "xnative \<and> \<not> IncludesNativeInfo l")
  case True
  then show ?thesis by (simp add: Write_openruntimes_first_native is_open_File_Write)
next
  case False
  then have "\<not> xnative \<or> IncludesNativeInfo l" by simp
  then show ?thesis by (simp add: Write_openruntimes_latched is_open_File_Write)
qed

lemma written_Context_Log_openruntimes:
  "written g (snd (Context_Log_openruntimes marshal sprintv sprintgv c message s)) =
     (if g = StreamLogs (ctx_Logger c) \<and> is_open g s
      then written g s @ (case message of MString v \<Rightarrow> v | MLog v \<Rightarrow> sprintgv message | MOther v \<Rightarrow> sprintgv message)
             @ [CHR 0x0A]
      else written g s)"
  by (auto simp: Context_Log_openruntimes_def Let_def written_Write_openruntimes resolved_line_def
        LOGGER_TYPE_LOG_def LOGGER_TYPE_ERROR_def split: message.splits)

subsection \<open>Resolution of a message to its stored line\<close>

text \<open>
  Claim C1. Whatever the message, the bytes that \<open>Write\<close> stores for it in the selected
  open destination are: the string itself for a string, the display string of the
  \<open>Log\<close> wrapper, the JSON text for any other value that serializes, and the generic
  textual rendering for a value whose serialization fails. (On the first native-origin
  call the advisory line goes to the same destination before it.) The same holds of the
  pointer-receiver \<open>Write\<close> of package \<^verbatim>\<open>openruntimes\<close>, and of \<^verbatim>\<open>Context.Log\<close> of
  part_000, which appends the line so resolved to the slice of the context.
\<close>

theorem Write_stores_resolved_line:
  assumes "is_open (if xtype = LOGGER_TYPE_ERROR then StreamErrors l else StreamLogs l) s"
  shows "let stream = (if xtype = LOGGER_TYPE_ERROR then StreamErrors l else StreamLogs l);
             before = written stream s @ (if xnative \<and> \<not> IncludesNativeInfo l then native_advisory else []);
             after = (\<lambda>message. written stream (Write marshal sprintv l message xtype xnative s));
             after_openruntimes = (\<lambda>message. written stream
                (snd (Write_openruntimes marshal sprintv l message xtype xnative s)));
             after_part000 = (\<lambda>message. Logs (Context_Log_part000 marshal sprintv c message))
         in after (MString str) = before @ str
          \<and> after (MLog lg) = before @ Message lg
          \<and> (marshal v = Some jsonData \<longrightarrow> after (MOther v) = before @ jsonData)
          \<and> (marshal w = None \<longrightarrow> after (MOther w) = before @ sprintv w)
          \<and> after_openruntimes (MString str) = before @ str
          \<and> after_openruntimes (MLog lg) = before @ Message lg
          \<and> (marshal v = Some jsonData \<longrightarrow> after_openruntimes (MOther v) = before @ jsonData)
          \<and> (marshal w = None \<longrightarrow> after_openruntimes (MOther w) = before @ sprintv w)
          \<and> after_part000 (MString str) = Logs c @ [str]
          \<and> after_part000 (MLog lg) = Logs c @ [Message lg]
          \<and> (marshal v = Some jsonData \<longrightarrow> after_part000 (MOther v) = Logs c @ [jsonData])
          \<and> (marshal w = None \<longrightarrow> after_part000 (MOther w) = Logs c @ [sprintv w])"
  using assms
  by (simp add: written_Write written_Write_openruntimes resolved_line_def Let_def
        Context_Log_part000_def Log_String_def)

theorem Write_stores_resolved_line_witness:
  "is_open (Some 0) store2
   \<and> marshal2 1 = Some ''1''
   \<and> marshal2 0 = None
   \<and> written (Some 0) (Write marshal2 sprintv2 sink2 (MString ''a'') ''log'' False store2) = ''a''
   \<and> written (Some 0) (Write marshal2 sprintv2 sink2 (MLog \<lparr>Message = ''b''\<rparr>) ''log'' False store2) = ''b''
   \<and> written (Some 0) (Write marshal2 sprintv2 sink2 (MOther 1) ''log'' False store2) = ''1''
   \<and> written (Some 0) (Write marshal2 sprintv2 sink2 (MOther 0) ''log'' False store2) = ''v''
   \<and> written (Some 0) (snd (Write_openruntimes marshal2 sprintv2 sink2 (MString ''a'') ''log'' False store2)) = ''a''
   \<and> written (Some 0) (snd (Write_openruntimes marshal2 sprintv2 sink2 (MLog \<lparr>Message = ''b''\<rparr>) ''log'' False store2)) = ''b''
   \<and> written (Some 0) (snd (Write_openruntimes marshal2 sprintv2 sink2 (MOther 1) ''log'' False store2)) = ''1''
   \<and> written (Some 0) (snd (Write_openruntimes marshal2 sprintv2 sink2 (MOther 0) ''log'' False store2)) = ''v''
   \<and> Logs (Context_Log_part000 marshal2 sprintv2 \<lparr>Logs = [''x''], Errors = []\<rparr> (MString ''a'')) = [''x'', ''a'']
   \<and> Logs (Context_Log_part000 marshal2 sprintv2 \<lparr>Logs = [''x''], Errors = []\<rparr> (MLog \<lparr>Message = ''b''\<rparr>)) = [''x'', ''b'']
   \<and> Logs (Context_Log_part000 marshal2 sprintv2 \<lparr>Logs = [''x''], Errors = []\<rparr> (MOther 1)) = [''x'', ''1'']
   \<and> Logs (Context_Log_part000 marshal2 sprintv2 \<lparr>Logs = [''x''], Errors = []\<rparr> (MOther 0)) = [''x'', ''v'']"
proof -
  have o: "is_open (if ''log'' = LOGGER_TYPE_ERROR then StreamErrors sink2 else StreamLogs sink2) store2"
    by (simp add: is_open_def store2_def sink2_def zero_Logger_def LOGGER_TYPE_ERROR_def)
  show ?thesis
    using o Write_stores_resolved_line [OF o, where xnative = False and marshal = marshal2
        and sprintv = sprintv2 and str = "''a''" and lg = "\<lparr>Message = ''b''\<rparr>" and v = 1
        and jsonData = "''1''" and w = 0 and c = "\<lparr>Logs = [''x''], Errors = []\<rparr>"]
    by (simp add: Let_def marshal2_def sprintv2_def LOGGER_TYPE_ERROR_def sink2_def zero_Logger_def written_def store2_def)
qed

subsection \<open>The bytes appended and the destination that receives them\<close>

text \<open>
  Claim C2, as the code has it. For every message and every kind, \<open>Write\<close> (of main.go
  and of package \<^verbatim>\<open>openruntimes\<close>) appends the resolved line as it is, with no newline
  behind it, to the destination selected by the kind: the log destination for kind log,
  the error destination for kind error; the other destination keeps its bytes. (The
  advisory line precedes it on the first native-origin call.) Where a newline is stored,
  the facade has added it: \<^verbatim>\<open>Context.Log\<close> of package \<^verbatim>\<open>openruntimes\<close> hands the
  rendered message followed by a newline to \<open>Write\<close>, which stores that string in the
  log destination.
\<close>

theorem Write_appends_line_to_selected_destination:
  assumes "StreamLogs l \<noteq> StreamErrors l"
  shows "let pre = (if xnative \<and> \<not> IncludesNativeInfo l then native_advisory else []);
             line = resolved_line marshal sprintv message;
             s1 = Write marshal sprintv l message xtype xnative s;
             s2 = snd (Write_openruntimes marshal sprintv l message xtype xnative s);
             facade = (\<lambda>m. snd (Context_Log_openruntimes marshal sprintv sprintgv \<lparr>ctx_Logger = l\<rparr> m s))
         in (xtype = LOGGER_TYPE_LOG \<longrightarrow>
               (is_open (StreamLogs l) s \<longrightarrow>
                  written (StreamLogs l) s1 = written (StreamLogs l) s @ pre @ line
                  \<and> written (StreamLogs l) s2 = written (StreamLogs l) s @ pre @ line)
               \<and> written (StreamErrors l) s1 = written (StreamErrors l) s
               \<and> written (StreamErrors l) s2 = written (StreamErrors l) s)
          \<and> (xtype = LOGGER_TYPE_ERROR \<longrightarrow>
               (is_open (StreamErrors l) s \<longrightarrow>
                  written (StreamErrors l) s1 = written (StreamErrors l) s @ pre @ line
                  \<and> written (StreamErrors l) s2 = written (StreamErrors l) s @ pre @ line)
               \<and> written (StreamLogs l) s1 = written (StreamLogs l) s
               \<and> written (StreamLogs l) s2 = written (StreamLogs l) s)
          \<and> (is_open (StreamLogs l) s \<longrightarrow>
               written (StreamLogs l) (facade (MString str)) = written (StreamLogs l) s @ str @ [CHR 0x0A]
               \<and> written (StreamLogs l) (facade (MLog lg)) = written (StreamLogs l) s @ sprintgv (MLog lg) @ [CHR 0x0A]
               \<and> written (StreamLogs l) (facade (MOther v)) = written (StreamLogs l) s @ sprintgv (MOther v) @ [CHR 0x0A])
          \<and> written (StreamErrors l) (facade message) = written (StreamErrors l) s"
  using assms
  by (auto simp: Let_def written_Write written_Write_openruntimes written_Context_Log_openruntimes
        LOGGER_TYPE_LOG_def LOGGER_TYPE_ERROR_def)

theorem Write_appends_line_to_selected_destination_witness:
  "StreamLogs sink2 \<noteq> StreamErrors sink2
   \<and> is_open (StreamLogs sink2) store2
   \<and> is_open (StreamErrors sink2) store2
   \<and> written (StreamLogs sink2) (Write marshal2 sprintv2 sink2 (MOther 1) ''log'' False store2) = ''1''
   \<and> written (StreamErrors sink2) (Write marshal2 sprintv2 sink2 (MOther 1) ''log'' False store2) = []
   \<and> written (StreamLogs sink2) (snd (Write_openruntimes marshal2 sprintv2 sink2 (MOther 1) ''log'' False store2)) = ''1''
   \<and> written (StreamErrors sink2) (snd (Write_openruntimes marshal2 sprintv2 sink2 (MOther 1) ''log'' False store2)) = []
   \<and> written (StreamErrors sink2) (Write marshal2 sprintv2 sink2 (MOther 1) ''error'' False store2) = ''1''
   \<and> written (StreamLogs sink2) (Write marshal2 sprintv2 sink2 (MOther 1) ''error'' False store2) = []
   \<and> written (StreamErrors sink2) (snd (Write_openruntimes marshal2 sprintv2 sink2 (MOther 1) ''error'' False store2)) = ''1''
   \<and> written (StreamLogs sink2) (snd (Write_openruntimes marshal2 sprintv2 sink2 (MOther 1) ''error'' False store2)) = []
   \<and> written (StreamLogs sink2)
        (snd (Context_Log_openruntimes marshal2 sprintv2 (\<lambda>m. ''g'') \<lparr>ctx_Logger = sink2\<rparr> (MString ''a'') store2))
       = ''a'' @ [CHR 0x0A]
   \<and> written (StreamLogs sink2)
        (snd (Context_Log_openruntimes marshal2 sprintv2 (\<lambda>m. ''g'') \<lparr>ctx_Logger = sink2\<rparr> (MOther 1) store2))
       = ''g'' @ [CHR 0x0A]
   \<and> written (StreamErrors sink2)
        (snd (Context_Log_openruntimes marshal2 sprintv2 (\<lambda>m. ''g'') \<lparr>ctx_Logger = sink2\<rparr> (MOther 1) store2))
       = []"
proof -
  have d: "StreamLogs sink2 \<noteq> StreamErrors sink2"
    by (simp add: sink2_def zero_Logger_def)
  have o: "is_open (StreamLogs sink2) store2" "is_open (StreamErrors sink2) store2"
    by (simp_all add: is_open_def store2_def sink2_def zero_Logger_def)
  have w: "written (StreamLogs sink2) store2 = []" "written (StreamErrors sink2) store2 = []"
    by (simp_all add: written_def store2_def sink2_def zero_Logger_def)
  have r: "resolved_line marshal2 sprintv2 (MOther 1) = ''1''"
    by (simp add: resolved_line_def marshal2_def)
  show ?thesis
    using d o w r
      Write_appends_line_to_selected_destination [OF d, where xnative = False and marshal = marshal2
        and sprintv = sprintv2 and message = "MOther 1" and xtype = "''log''" and s = store2
        and sprintgv = "\<lambda>m. ''g''" and str = "''a''" and v = 1]
      Write_appends_line_to_selected_destination [OF d, where xnative = False and marshal = marshal2
        and sprintv = sprintv2 and message = "MOther 1" and xtype = "''error''" and s = store2
        and sprintgv = "\<lambda>m. ''g''" and str = "''a''" and v = 1]
    by (simp add: Let_def LOGGER_TYPE_LOG_def LOGGER_TYPE_ERROR_def)
qed

text \<open>
  The statement with the newline fails on the code: on a sink with two open and empty
  destinations, the write of the string \<^verbatim>\<open>a\<close> with kind log leaves exactly the byte
  \<^verbatim>\<open>a\<close> in the log destination, and no newline behind it, with either receiver.
\<close>

theorem Write_appends_no_newline:
  "is_open (StreamLogs sink2) store2
   \<and> written (StreamLogs sink2) store2 = []
   \<and> written (StreamLogs sink2) (Write marshal2 sprintv2 sink2 (MString ''a'') LOGGER_TYPE_LOG False store2) = ''a''
   \<and> written (StreamLogs sink2) (Write marshal2 sprintv2 sink2 (MString ''a'') LOGGER_TYPE_LOG False store2)
       \<noteq> ''a'' @ [CHR 0x0A]
   \<and> written (StreamLogs sink2)
        (snd (Write_openruntimes marshal2 sprintv2 sink2 (MString ''a'') LOGGER_TYPE_LOG False store2)) = ''a''
   \<and> written (StreamLogs sink2)
        (snd (Write_openruntimes marshal2 sprintv2 sink2 (MString ''a'') LOGGER_TYPE_LOG False store2))
       \<noteq> ''a'' @ [CHR 0x0A]"
  by (simp add: written_Write written_Write_openruntimes resolved_line_def)
     (simp add: inputs is_open_def written_def)

subsection \<open>The two logging calls of the context\<close>

text \<open>
  Claim C3, on the code. In main.go \<^verbatim>\<open>Context.Error\<close> passes the kind log: it does
  what \<^verbatim>\<open>Context.Log\<close> does, for every message, and the message \<^verbatim>\<open>boom\<close> arrives in
  the log destination while the error destination stays empty. The revision of package
  \<^verbatim>\<open>types\<close> in part_001 passes the kind error, and there the same call fills the error
  destination and leaves the log destination empty. \<^verbatim>\<open>Context.Log\<close> writes to the log
  destination in both, and neither call emits the advisory line of a native-origin
  write.
\<close>

theorem Context_Error_writes_to_log_destination:
  "Context_Error marshal sprintv c message s = Context_Log marshal sprintv c message s
   \<and> written (StreamLogs (ctx_Logger context2))
        (Context_Error marshal2 sprintv2 context2 (MString ''boom'') store2) = ''boom''
   \<and> written (StreamErrors (ctx_Logger context2))
        (Context_Error marshal2 sprintv2 context2 (MString ''boom'') store2) = []
   \<and> written (StreamLogs (ctx_Logger context2))
        (Context_Error_part001 marshal2 sprintv2 context2 (MString ''boom'') store2) = []
   \<and> written (StreamErrors (ctx_Logger context2))
        (Context_Error_part001 marshal2 sprintv2 context2 (MString ''boom'') store2) = ''boom''
   \<and> written (StreamLogs (ctx_Logger context2))
        (Context_Log marshal2 sprintv2 context2 (MString ''note'') store2) = ''note''
   \<and> written (StreamErrors (ctx_Logger context2))
        (Context_Log marshal2 sprintv2 context2 (MString ''note'') store2) = []
   \<and> written (StreamLogs (ctx_Logger context2))
        (Context_Log_part001 marshal2 sprintv2 context2 (MString ''note'') store2) = ''note''
   \<and> written (StreamErrors (ctx_Logger context2))
        (Context_Log_part001 marshal2 sprintv2 context2 (MString ''note'') store2) = []"
  by (simp add: Context_Error_def Context_Log_def Context_Error_part001_def Context_Log_part001_def
        written_Write resolved_line_def)
     (simp add: inputs is_open_def written_def)

subsection \<open>The advisory line of native-origin writes\<close>

text \<open>
  Claim C4, on the code. In main.go the receiver of \<open>Write\<close> is a copy, so the latch set
  by the first native-origin write is lost when the call returns: after two consecutive
  native-origin writes of \<^verbatim>\<open>a\<close> and \<^verbatim>\<open>b\<close> on the same sink the log destination holds
  the advisory line twice. With the pointer receiver of package \<^verbatim>\<open>openruntimes\<close> the first
  write leaves the latch set in the sink, and the same two writes store the advisory line
  once.
\<close>

theorem Write_repeats_native_advisory:
  "written (StreamLogs sink2) (Write marshal2 sprintv2 sink2 (MString ''a'') LOGGER_TYPE_LOG True store2)
     = native_advisory @ ''a''
   \<and> written (StreamLogs sink2)
        (Write marshal2 sprintv2 sink2 (MString ''b'') LOGGER_TYPE_LOG True
           (Write marshal2 sprintv2 sink2 (MString ''a'') LOGGER_TYPE_LOG True store2))
     = native_advisory @ ''a'' @ native_advisory @ ''b''
   \<and> (let ls1 = Write_openruntimes marshal2 sprintv2 sink2 (MString ''a'') LOGGER_TYPE_LOG True store2;
           ls2 = Write_openruntimes marshal2 sprintv2 (fst ls1) (MString ''b'') LOGGER_TYPE_LOG True (snd ls1)
       in IncludesNativeInfo (fst ls1)
          \<and> written (StreamLogs sink2) (snd ls1) = native_advisory @ ''a''
          \<and> written (StreamLogs sink2) (snd ls2) = native_advisory @ ''a'' @ ''b'')"
  by (simp add: Let_def written_Write written_Write_openruntimes fst_Write_openruntimes
        is_open_Write is_open_Write_openruntimes resolved_line_def)
     (simp add: inputs is_open_def written_def)

subsection \<open>Closing the sink\<close>

text \<open>
  Claim C5, on the code. In main.go the receiver of \<open>End\<close> is a copy: the caller's sink
  stays enabled, and a second call goes through the closing branch again, so that
  \<^verbatim>\<open>Close\<close> is called on each destination twice (the second time it returns
  \<^verbatim>\<open>ErrClosed\<close>, which is dropped). On a disabled sink the call does nothing. With the
  pointer receiver of part_001 the first call leaves the sink disabled, and the second
  changes neither the sink nor the store.
\<close>

theorem End_twice_closes_twice:
  "Enabled sink2
   \<and> calls (End sink2 store2) = [Call_Close (Some 0), Call_Close (Some 1)]
   \<and> calls (End sink2 (End sink2 store2))
       = [Call_Close (Some 0), Call_Close (Some 1), Call_Close (Some 0), Call_Close (Some 1)]
   \<and> fst (File_Close (StreamLogs sink2) (End sink2 store2)) = Some ErrClosed
   \<and> fst (File_Close (StreamErrors sink2) (End sink2 store2)) = Some ErrClosed
   \<and> End (sink2\<lparr>Enabled := False\<rparr>) store2 = store2
   \<and> (let ls1 = End_openruntimes sink2 store2;
           ls2 = End_openruntimes (fst ls1) (snd ls1)
       in \<not> Enabled (fst ls1)
          \<and> calls (snd ls1) = [Call_Close (Some 0), Call_Close (Some 1)]
          \<and> \<not> is_open (StreamLogs sink2) (snd ls1)
          \<and> \<not> is_open (StreamErrors sink2) (snd ls1)
          \<and> ls2 = ls1)"
  by (simp add: End_def End_openruntimes_def File_Close_def Let_def is_open_def inputs)

subsection \<open>Writes on a disabled sink\<close>
















subsection \<open>Handing the captured native output to the sink\<close>

text \<open>
  Claim C7, on the code. The second write of \<open>RevertNativeLogs\<close> passes the log buffer
  again: whatever the non-empty error buffer holds, the outcome is the same, and with the
  buffers \<^verbatim>\<open>out\<close> and \<^verbatim>\<open>err\<close> the error destination receives \<^verbatim>\<open>out\<close>, never
  \<^verbatim>\<open>err\<close>; with an empty log buffer it receives the advisory line alone. This is so with
  the value receiver of main.go (where the advisory line precedes both writes) and with
  the pointer receiver of package \<^verbatim>\<open>openruntimes\<close>.
\<close>

theorem RevertNativeLogs_writes_log_buffer_as_error:
  "RevertNativeLogs marshal sprintv l customLogs (x # xs) s
     = RevertNativeLogs marshal sprintv l customLogs (y # ys) s
   \<and> RevertNativeLogs_openruntimes marshal sprintv l customLogs (x # xs) s
     = RevertNativeLogs_openruntimes marshal sprintv l customLogs (y # ys) s
   \<and> written (StreamLogs sink4) (RevertNativeLogs marshal2 sprintv2 sink4 ''out'' ''err'' store4)
     = native_advisory @ ''out''
   \<and> written (StreamErrors sink4) (RevertNativeLogs marshal2 sprintv2 sink4 ''out'' ''err'' store4)
     = native_advisory @ ''out''
   \<and> written (StreamErrors sink4) (RevertNativeLogs marshal2 sprintv2 sink4 [] ''err'' store4)
     = native_advisory
   \<and> written (StreamLogs sink4) (snd (RevertNativeLogs_openruntimes marshal2 sprintv2 sink4 ''out'' ''err'' store4))
     = native_advisory @ ''out''
   \<and> written (StreamErrors sink4) (snd (RevertNativeLogs_openruntimes marshal2 sprintv2 sink4 ''out'' ''err'' store4))
     = ''out''
   \<and> written (StreamErrors sink4) (snd (RevertNativeLogs_openruntimes marshal2 sprintv2 sink4 [] ''err'' store4))
     = native_advisory"
  by (simp add: RevertNativeLogs_def RevertNativeLogs_openruntimes_def Let_def
        written_Write written_Write_openruntimes fst_Write_openruntimes
        is_open_Write is_open_Write_openruntimes resolved_line_def)
     (simp add: sink4_def store4_def inputs is_open_def written_def File_Close_def Let_def)

subsection \<open>The response to a value that does not serialize\<close>

text \<open>
  Claim C8, on the code. When the serialization fails, \<open>Json\<close> of main.go (and of
  part_000) hands \<^verbatim>\<open>nil\<close> to \<open>Send\<close> in place of the headers it has just
  filled: the response has status 500 and the fixed body, but its headers are a new,
  empty map, without \<^verbatim>\<open>content-type\<close>; so it is in the revision of package \<^verbatim>\<open>types\<close>
  in part_001, and so it is when the caller supplies a map. \<^verbatim>\<open>ContextResponse.Json\<close> of
  package \<^verbatim>\<open>openruntimes\<close> keeps the headers: there the same input yields status 500, the
  fixed body and the entry \<^verbatim>\<open>content-type\<close>.
\<close>

theorem Json_failure_drops_content_type:
  "marshal2 0 = None
   \<and> fst (Json marshal2 0 0 None []) = \<lparr>Body = ''Error encoding JSON.'', StatusCode = 500, Headers = Some 1\<rparr>
   \<and> snd (Json marshal2 0 0 None []) ! 1 = Map.empty
   \<and> fst (Json marshal2 0 201 (Some 0) heap1) = \<lparr>Body = ''Error encoding JSON.'', StatusCode = 500, Headers = Some 1\<rparr>
   \<and> snd (Json marshal2 0 201 (Some 0) heap1) ! 1 = Map.empty
   \<and> fst (Json_part001 marshal2 0 0 None []) = \<lparr>Body = ''Error encoding JSON.'', StatusCode = 500, Headers = Some 1\<rparr>
   \<and> snd (Json_part001 marshal2 0 0 None []) ! 1 = Map.empty
   \<and> fst (Json_part001 marshal2 0 201 (Some 0) heap1) = \<lparr>Body = ''Error encoding JSON.'', StatusCode = 500, Headers = Some 1\<rparr>
   \<and> snd (Json_part001 marshal2 0 201 (Some 0) heap1) ! 1 = Map.empty
   \<and> (case ContextResponse_Json marshal2 0 [] [] of
         None \<Rightarrow> False
       | Some (out, h) \<Rightarrow>
           Response_Body out = ''Error encoding JSON.''
           \<and> Response_StatusCode out = 500
           \<and> (case Response_Headers out of
                 None \<Rightarrow> False
               | Some r \<Rightarrow> h ! r = [''content-type'' \<mapsto> ''application/json'']))"
  by (simp add: Json_def Send_def Json_part001_def Text_part001_def Binary_part001_def
        ContextResponse_Json_def ContextResponse_Text_def ContextResponse_Binary_def
        Response_New_def apply_option_def enabled_setter_def
        new_map_def Let_def marshal2_def heap1_def)

subsection \<open>The identifier of a new sink\<close>

text \<open>
  Claim C9, on the code. \<open>NewLogger\<close> of main.go tests the environment first: in a
  development context the identifier is \<^verbatim>\<open>dev\<close> also when the caller supplies
  \<^verbatim>\<open>abc\<close>; and the identifier it generates is the clock in nanoseconds and a random
  number below 1000, both in decimal digits (\<^verbatim>\<open>25500010\<close> for the clock 255000 and the
  random number 10). In part_001 the supplied identifier comes first, \<^verbatim>\<open>dev\<close> is the
  identifier of a development context when none is supplied, and otherwise the identifier
  is the clock in microseconds in hexadecimal digits followed by seven random hexadecimal
  digits (\<^verbatim>\<open>ff\<close> and \<^verbatim>\<open>abcdef0\<close>).
\<close>

theorem NewLogger_identifier_of_main:
  "map_sum id Logger_Id (fst (NewLogger env_development ''enabled'' ''abc'' store0)) = Inr ''dev''
   \<and> map_sum id Logger_Id (fst (NewLogger env_development ''enabled'' [] store0)) = Inr ''dev''
   \<and> map_sum id Logger_Id (fst (NewLogger env_production ''enabled'' ''abc'' store0)) = Inr ''abc''
   \<and> map_sum id Logger_Id (fst (NewLogger env_production ''enabled'' [] store0)) = Inr ''25500010''
   \<and> GenerateId env_production = ''25500010''
   \<and> map_sum id Logger_Id (fst (NewLogger_part001 env_development ''enabled'' ''abc'' store0)) = Inr ''abc''
   \<and> map_sum id Logger_Id (fst (NewLogger_part001 env_development ''enabled'' [] store0)) = Inr ''dev''
   \<and> map_sum id Logger_Id (fst (NewLogger_part001 env_production ''enabled'' ''abc'' store0)) = Inr ''abc''
   \<and> map_sum id Logger_Id (fst (NewLogger_part001 env_production ''enabled'' [] store0)) = Inr ''ffabcdef0''
   \<and> generateId env_production 7 = ''ffabcdef0''"
proof -
  have g: "GenerateId env_production = ''25500010''"
    by (simp add: GenerateId_def Let_def rand_Intn_def Sprintf_d_def decimal.simps digit_char_def
          env_production_def)
  have h: "generateId env_production 7 = ''ffabcdef0''"
    by (simp add: generateId_def Let_def go_quot_def FormatInt16_def hexadecimal.simps digit_char_def
          generateId_loop.simps rand_Intn_def choices_def env_production_def)
  have e: "Getenv env_production ''OPEN_RUNTIMES_ENV'' = []"
          "Getenv env_development ''OPEN_RUNTIMES_ENV'' = ''development''"
          "openable env_production = (\<lambda>p. True)" "openable env_development = (\<lambda>p. True)"
    by (simp_all add: env_production_def env_development_def)
  show ?thesis
    by (simp add: g h e NewLogger_def NewLogger_part001_def Let_def OpenFile_def zero_Logger_def store0_def)
qed

subsection \<open>The headers map of the caller\<close>

text \<open>
  Claim C10. When the caller passes a map, \<open>Json\<close> writes the entry \<^verbatim>\<open>content-type\<close>
  into that very map, and does so whether or not the serialization succeeds afterwards;
  every other map of the heap stays as it was. The response never carries a copy of the
  caller's headers: after a successful serialization its headers are the caller's map
  itself and no map has been allocated, after a failed one they are a new, empty map.
  This holds of \<open>Json\<close> of main.go and part_000, and of the revision of package
  \<^verbatim>\<open>types\<close> in part_001.
\<close>

theorem Json_mutates_callers_headers:
  assumes "r < length h"
  shows "(case Json marshal bodyStruct statusCode (Some r) h of
            (out, h') \<Rightarrow>
              h' ! r = (h ! r)(''content-type'' \<mapsto> ''application/json'')
              \<and> (\<forall>r'. r' < length h \<and> r' \<noteq> r \<longrightarrow> h' ! r' = h ! r')
              \<and> (marshal bodyStruct \<noteq> None \<longrightarrow>
                   Headers out = Some r
                   \<and> h' = h[r := (h ! r)(''content-type'' \<mapsto> ''application/json'')])
              \<and> (marshal bodyStruct = None \<longrightarrow>
                   Headers out = Some (length h)
                   \<and> h' = h[r := (h ! r)(''content-type'' \<mapsto> ''application/json'')] @ [Map.empty]))
       \<and> (case Json_part001 marshal bodyStruct statusCode (Some r) h of
            (out, h') \<Rightarrow>
              h' ! r = (h ! r)(''content-type'' \<mapsto> ''application/json'')
              \<and> (\<forall>r'. r' < length h \<and> r' \<noteq> r \<longrightarrow> h' ! r' = h ! r')
              \<and> (marshal bodyStruct \<noteq> None \<longrightarrow>
                   Headers out = Some r
                   \<and> h' = h[r := (h ! r)(''content-type'' \<mapsto> ''application/json'')])
              \<and> (marshal bodyStruct = None \<longrightarrow>
                   Headers out = Some (length h)
                   \<and> h' = h[r := (h ! r)(''content-type'' \<mapsto> ''application/json'')] @ [Map.empty]))"
  using assms
  by (auto simp: Json_def Send_def Json_part001_def Text_part001_def Binary_part001_def
        new_map_def Let_def nth_append split: option.splits)

theorem Json_mutates_callers_headers_witness:
  "(0::nat) < length heap2
   \<and> marshal2 1 \<noteq> None
   \<and> marshal2 0 = None
   \<and> snd (Json marshal2 1 0 (Some 0) heap2) ! 0 = [''x-a'' \<mapsto> ''b'', ''content-type'' \<mapsto> ''application/json'']
   \<and> snd (Json marshal2 1 0 (Some 0) heap2) ! 1 = [''x-c'' \<mapsto> ''d'']
   \<and> Headers (fst (Json marshal2 1 0 (Some 0) heap2)) = Some 0
   \<and> length (snd (Json marshal2 1 0 (Some 0) heap2)) = 2
   \<and> snd (Json marshal2 0 0 (Some 0) heap2) ! 0 = [''x-a'' \<mapsto> ''b'', ''content-type'' \<mapsto> ''application/json'']
   \<and> Headers (fst (Json marshal2 0 0 (Some 0) heap2)) = Some 2
   \<and> snd (Json marshal2 0 0 (Some 0) heap2) ! 2 = Map.empty
   \<and> snd (Json_part001 marshal2 1 0 (Some 0) heap2) ! 0 = [''x-a'' \<mapsto> ''b'', ''content-type'' \<mapsto> ''application/json'']
   \<and> snd (Json_part001 marshal2 1 0 (Some 0) heap2) ! 1 = [''x-c'' \<mapsto> ''d'']
   \<and> Headers (fst (Json_part001 marshal2 1 0 (Some 0) heap2)) = Some 0
   \<and> snd (Json_part001 marshal2 0 0 (Some 0) heap2) ! 0 = [''x-a'' \<mapsto> ''b'', ''content-type'' \<mapsto> ''application/json'']
   \<and> Headers (fst (Json_part001 marshal2 0 0 (Some 0) heap2)) = Some 2"
proof -
  have b: "(0::nat) < length heap2"
    by (simp add: heap2_def)
  have m: "marshal2 1 \<noteq> None" "marshal2 0 = None"
    by (simp_all add: marshal2_def)
  have h: "heap2 ! 0 = [''x-a'' \<mapsto> ''b'']" "heap2 ! 1 = [''x-c'' \<mapsto> ''d'']" "length heap2 = 2"
    by (simp_all add: heap2_def)
  have u: "heap2[0 := [''x-a'' \<mapsto> ''b'', ''content-type'' \<mapsto> ''application/json'']]
             = [[''x-a'' \<mapsto> ''b'', ''content-type'' \<mapsto> ''application/json''], [''x-c'' \<mapsto> ''d'']]"
    by (simp add: heap2_def)
  show ?thesis
    using b m
      Json_mutates_callers_headers [OF b, where marshal = marshal2 and bodyStruct = 1 and statusCode = 0]
      Json_mutates_callers_headers [OF b, where marshal = marshal2 and bodyStruct = 0 and statusCode = 0]
    by (auto simp: h u split: prod.splits)
qed

end
